theory Spec2Isabelle
  imports Complex_Main "HOL-Library.AList"
begin

section \<open>Python values and exceptions\<close>

text \<open>
  The module \<^verbatim>\<open>src/agents/utils/filtered_mcp_tools.py\<close> handles values typed \<^verbatim>\<open>Any\<close>:
  annotation values delivered by the MCP server, filter values given at construction and
  tool arguments produced by a language model. They are JSON-shaped, so the model has
  \<^verbatim>\<open>None\<close>, booleans, unbounded integers, floats, strings, lists and string-keyed
  dictionaries. A float is either a finite value, kept as the exact rational it denotes
  (Python compares integers and floats exactly), an infinity or NaN.
\<close>

datatype pyfloat = Finite rat | PosInf | NegInf | NaN

datatype pyval =
    VNone
  | VBool bool
  | VInt int
  | VFloat pyfloat
  | VStr string
  | VList "pyval list"
  | VDict "(string \<times> pyval) list"

text \<open>
  Exceptions deriving from \<^verbatim>\<open>Exception\<close>, by the classes the module tells apart; each
  carries its message. \<open>OtherError\<close> is any class that is neither a \<^verbatim>\<open>ValueError\<close>, a
  \<^verbatim>\<open>TypeError\<close> nor an \<^verbatim>\<open>AttributeError\<close>.
\<close>

datatype exn =
    ValueError string
  | TypeError string
  | AttributeError string
  | OtherError string

text \<open>\<^verbatim>\<open>try: body except Exception: handler\<close>\<close>

definition py_try :: "exn + 'a \<Rightarrow> (exn \<Rightarrow> exn + 'a) \<Rightarrow> exn + 'a" where
  "py_try body handler = (case body of Inl e \<Rightarrow> handler e | Inr v \<Rightarrow> Inr v)"

text \<open>\<^verbatim>\<open>isinstance(e, (ValueError, TypeError))\<close>\<close>

fun is_value_or_type_error :: "exn \<Rightarrow> bool" where
  "is_value_or_type_error (ValueError m) = True"
| "is_value_or_type_error (TypeError m) = True"
| "is_value_or_type_error e = False"

subsection \<open>Truthiness, equality, hashing\<close>

text \<open>\<^verbatim>\<open>bool(v)\<close>\<close>

fun py_truthy :: "pyval \<Rightarrow> bool" where
  "py_truthy VNone = False"
| "py_truthy (VBool b) = b"
| "py_truthy (VInt i) = (i \<noteq> 0)"
| "py_truthy (VFloat f) = (f \<noteq> Finite 0)"
| "py_truthy (VStr s) = (s \<noteq> [])"
| "py_truthy (VList xs) = (xs \<noteq> [])"
| "py_truthy (VDict d) = (d \<noteq> [])"

text \<open>The numeric value of a number: \<^verbatim>\<open>True\<close> is 1 and \<^verbatim>\<open>False\<close> is 0.\<close>

fun as_number :: "pyval \<Rightarrow> pyfloat option" where
  "as_number (VBool b) = Some (Finite (if b then 1 else 0))"
| "as_number (VInt i) = Some (Finite (of_int i))"
| "as_number (VFloat f) = Some f"
| "as_number v = None"

fun float_eq :: "pyfloat \<Rightarrow> pyfloat \<Rightarrow> bool" where
  "float_eq NaN y = False"
| "float_eq x NaN = False"
| "float_eq x y = (x = y)"

text \<open>
  \<^verbatim>\<open>a == b\<close>. Numbers compare by value across \<^verbatim>\<open>bool\<close>, \<^verbatim>\<open>int\<close> and \<^verbatim>\<open>float\<close>; lists
  compare element by element; dictionaries compare as mappings, whatever the insertion
  order (the keys of a dictionary are distinct). Inside a container Python first tests
  whether two elements are one and the same object; that differs from \<^verbatim>\<open>==\<close> only for
  NaN and is not modelled.
\<close>

fun py_eq :: "pyval \<Rightarrow> pyval \<Rightarrow> bool"
  and py_eq_list :: "pyval list \<Rightarrow> pyval list \<Rightarrow> bool"
  and py_eq_items :: "(string \<times> pyval) list \<Rightarrow> (string \<times> pyval) list \<Rightarrow> bool"
where
  "py_eq VNone VNone = True"
| "py_eq (VStr s) (VStr t) = (s = t)"
| "py_eq (VList xs) (VList ys) = py_eq_list xs ys"
| "py_eq (VDict d) (VDict d') = (length d = length d' \<and> py_eq_items d d')"
| "py_eq a b =
     (case as_number a of
        None \<Rightarrow> False
      | Some x \<Rightarrow> (case as_number b of None \<Rightarrow> False | Some y \<Rightarrow> float_eq x y))"
| "py_eq_list [] [] = True"
| "py_eq_list (x # xs) (y # ys) = (py_eq x y \<and> py_eq_list xs ys)"
| "py_eq_list xs ys = False"
| "py_eq_items [] d' = True"
| "py_eq_items ((k, v) # d) d' =
     ((case map_of d' k of None \<Rightarrow> False | Some v' \<Rightarrow> py_eq v v') \<and> py_eq_items d d')"

text \<open>\<^verbatim>\<open>hash(v)\<close> succeeds on scalars and raises \<^verbatim>\<open>TypeError\<close> on lists and dictionaries.\<close>

fun hashable :: "pyval \<Rightarrow> bool" where
  "hashable (VList xs) = False"
| "hashable (VDict d) = False"
| "hashable v = True"

text \<open>\<^verbatim>\<open>isinstance(v, list)\<close>\<close>

fun is_list :: "pyval \<Rightarrow> bool" where
  "is_list (VList xs) = True"
| "is_list v = False"

text \<open>\<^verbatim>\<open>v in xs\<close> for a list \<open>xs\<close>: some element equals \<open>v\<close>.\<close>

definition py_in_list :: "pyval \<Rightarrow> pyval list \<Rightarrow> bool" where
  "py_in_list v xs = list_ex (\<lambda>x. py_eq v x) xs"

text \<open>
  \<^verbatim>\<open>set(xs)\<close> hashes every element, so it raises \<^verbatim>\<open>TypeError\<close> when one of them is a list
  or a dictionary. A set is represented by the list of its members; the module only
  observes whether an intersection is empty.
\<close>

definition py_set :: "pyval list \<Rightarrow> exn + pyval list" where
  "py_set xs = (if list_all hashable xs then Inr xs else Inl (TypeError ''unhashable type''))"

definition py_set_inter :: "pyval list \<Rightarrow> pyval list \<Rightarrow> pyval list" where
  "py_set_inter xs ys = filter (\<lambda>x. py_in_list x ys) xs"

section \<open>Tool descriptors\<close>

text \<open>
  The outcome of reading an attribute of an object: the attribute does not exist (the
  read raises \<^verbatim>\<open>AttributeError\<close>, so \<^verbatim>\<open>hasattr\<close> is false and \<^verbatim>\<open>getattr\<close> with a default
  returns the default), the read raises another exception, or it returns a value.
\<close>

datatype 'a attr = NoAttr | AttrRaises exn | Attr 'a

text \<open>
  The object held in \<^verbatim>\<open>tool.annotations\<close>: \<open>truthy\<close> is the outcome of \<^verbatim>\<open>bool(...)\<close> on it
  and \<open>getattr\<close> the outcome of reading one of its attributes.
\<close>

record annotations_obj =
  truthy :: "exn + bool"
  getattr :: "string \<Rightarrow> pyval attr"

text \<open>An MCP tool; \<^verbatim>\<open>tool.annotations\<close> may be \<^verbatim>\<open>None\<close>.\<close>

record tool =
  name :: string
  description :: "string option"
  inputSchema :: pyval
  annotations :: "annotations_obj option attr"

section \<open>Annotation filtering\<close>

text \<open>
  A filter value is told apart by \<^verbatim>\<open>callable(filter_value)\<close>: a callable takes the
  annotation value and returns a value or raises; anything else is a plain value.
\<close>

datatype filter_value =
    Callable "pyval \<Rightarrow> exn + pyval"
  | Value pyval

text \<open>The body of the \<^verbatim>\<open>try\<close> block of \<^verbatim>\<open>_get_annotation_value\<close>.\<close>

definition get_annotation_value_body :: "tool \<Rightarrow> string \<Rightarrow> exn + pyval" where
  "get_annotation_value_body t annotation_key =
     (case annotations t of
        NoAttr \<Rightarrow> Inr VNone
      | AttrRaises e \<Rightarrow> Inl e
      | Attr None \<Rightarrow> Inr VNone
      | Attr (Some a) \<Rightarrow>
          (case truthy a of
             Inl e \<Rightarrow> Inl e
           | Inr False \<Rightarrow> Inr VNone
           | Inr True \<Rightarrow>
               (case getattr a annotation_key of
                  NoAttr \<Rightarrow> Inr VNone
                | AttrRaises e \<Rightarrow> Inl e
                | Attr v \<Rightarrow> Inr v)))"

definition get_annotation_value :: "tool \<Rightarrow> string \<Rightarrow> exn + pyval" where
  "get_annotation_value t annotation_key =
     py_try (get_annotation_value_body t annotation_key) (\<lambda>e. Inr VNone)"

text \<open>\<^verbatim>\<open>_annotation_value_matches_filter\<close>\<close>

definition annotation_value_matches_filter :: "pyval \<Rightarrow> filter_value \<Rightarrow> exn + bool" where
  "annotation_value_matches_filter annotation_value fv =
     (case fv of
        Callable f \<Rightarrow>
          py_try (case f annotation_value of Inl e \<Rightarrow> Inl e | Inr r \<Rightarrow> Inr (py_truthy r))
                 (\<lambda>e. Inr False)
      | Value (VList fs) \<Rightarrow>
          (case annotation_value of
             VList vs \<Rightarrow>
               (case py_set vs of
                  Inl e \<Rightarrow> Inl e
                | Inr sv \<Rightarrow>
                    (case py_set fs of
                       Inl e \<Rightarrow> Inl e
                     | Inr sf \<Rightarrow> Inr (py_set_inter sv sf \<noteq> [])))
           | _ \<Rightarrow> Inr (py_in_list annotation_value fs))
      | Value r \<Rightarrow> Inr (py_eq annotation_value r))"

text \<open>
  The configuration of a \<^verbatim>\<open>FilteredMCPTools\<close> instance that the inclusion decision
  reads. \<^verbatim>\<open>annotation_filters\<close> is a dictionary; its items are kept in insertion order.
\<close>

record filter_config =
  annotation_filters :: "(string \<times> filter_value) list"
  custom_filter :: "(tool \<Rightarrow> exn + pyval) option"
  debug_filtering :: bool

text \<open>The loop over \<^verbatim>\<open>self.annotation_filters.items()\<close> of \<^verbatim>\<open>_should_include_tool\<close>.\<close>

fun check_annotation_filters :: "tool \<Rightarrow> (string \<times> filter_value) list \<Rightarrow> exn + bool" where
  "check_annotation_filters t [] = Inr True"
| "check_annotation_filters t ((annotation_key, fv) # rest) =
     (case get_annotation_value t annotation_key of
        Inl e \<Rightarrow> Inl e
      | Inr annotation_value \<Rightarrow>
          (case annotation_value_matches_filter annotation_value fv of
             Inl e \<Rightarrow> Inl e
           | Inr False \<Rightarrow> Inr False
           | Inr True \<Rightarrow> check_annotation_filters t rest))"

text \<open>
  \<^verbatim>\<open>_should_include_tool\<close>. The calls of \<^verbatim>\<open>self.log\<close> only emit debug messages and are
  left out; \<^verbatim>\<open>if self.annotation_filters\<close> is the case of the empty list of the loop.
\<close>

definition should_include_tool :: "('a filter_config_scheme) \<Rightarrow> tool \<Rightarrow> exn + bool" where
  "should_include_tool self t =
     (case custom_filter self of
        None \<Rightarrow> check_annotation_filters t (annotation_filters self)
      | Some f \<Rightarrow>
          (case f t of
             Inl e \<Rightarrow> Inr False
           | Inr r \<Rightarrow>
               if \<not> py_truthy r then Inr False
               else check_annotation_filters t (annotation_filters self)))"

text \<open>
  The filtering loop of \<^verbatim>\<open>initialize\<close> over \<^verbatim>\<open>available_tools.tools\<close>: the tools that
  pass, in catalogue order; an exception of the inclusion decision ends the loop.
\<close>

fun annotation_filter_tools :: "('a filter_config_scheme) \<Rightarrow> tool list \<Rightarrow> exn + tool list" where
  "annotation_filter_tools self [] = Inr []"
| "annotation_filter_tools self (t # ts) =
     (case should_include_tool self t of
        Inl e \<Rightarrow> Inl e
      | Inr keep \<Rightarrow>
          (case annotation_filter_tools self ts of
             Inl e \<Rightarrow> Inl e
           | Inr kept \<Rightarrow> Inr (if keep then t # kept else kept)))"

text \<open>
  The normalisation of the filter arguments in \<^verbatim>\<open>__init__\<close>: the legacy \<^verbatim>\<open>toolsets\<close>
  argument is a string or a list of strings.
\<close>

datatype toolsets_arg = ToolsetStr string | ToolsetList "string list"

definition init_annotation_filters ::
  "(string \<times> filter_value) list option \<Rightarrow> toolsets_arg option \<Rightarrow>
   exn + (string \<times> filter_value) list" where
  "init_annotation_filters annotation_filters_arg toolsets =
     (if toolsets \<noteq> None \<and> annotation_filters_arg \<noteq> None then
        Inl (ValueError ''Cannot specify both toolsets and annotation_filters'')
      else
        (case annotation_filters_arg of
           Some fs \<Rightarrow> Inr fs
         | None \<Rightarrow>
             (case toolsets of
                Some (ToolsetStr s) \<Rightarrow> Inr [(''toolsets'', Value (VList [VStr s]))]
              | Some (ToolsetList ss) \<Rightarrow> Inr [(''toolsets'', Value (VList (map VStr ss)))]
              | None \<Rightarrow> Inr [])))"

section \<open>Parameter coercion\<close>

subsection \<open>Built-in conversions\<close>

text \<open>
  \<^verbatim>\<open>int(s)\<close> for a string, in base 10: surrounding whitespace is stripped, a sign may
  come first, and the digits may be separated by single underscores. Anything else raises
  \<^verbatim>\<open>ValueError\<close>, and so does a literal of more than 4300 digits, the default limit of the
  interpreter. Characters are ASCII; the messages are the fixed part of Python's.
\<close>

definition is_space :: "char \<Rightarrow> bool" where
  "is_space c = (c \<in> set [CHR 0x09, CHR 0x0A, CHR 0x0B, CHR 0x0C, CHR 0x0D, CHR 0x20])"

definition strip :: "string \<Rightarrow> string" where
  "strip s = rev (dropWhile is_space (rev (dropWhile is_space s)))"

definition is_digit :: "char \<Rightarrow> bool" where
  "is_digit c = (48 \<le> (of_char c :: nat) \<and> (of_char c :: nat) \<le> 57)"

definition digit_val :: "char \<Rightarrow> nat" where
  "digit_val c = of_char c - 48"

text \<open>
  The scan of the digits after the first: the value and the number of digits read so far
  and the input left at the first character that is neither a digit nor an underscore;
  \<open>None\<close> when an underscore is not followed by a digit.
\<close>

fun scan_digits :: "nat \<Rightarrow> nat \<Rightarrow> string \<Rightarrow> (nat \<times> nat \<times> string) option" where
  "scan_digits acc n [] = Some (acc, n, [])"
| "scan_digits acc n [c] =
     (if is_digit c then Some (10 * acc + digit_val c, Suc n, [])
      else if c = CHR ''_'' then None
      else Some (acc, n, [c]))"
| "scan_digits acc n (c # d # cs) =
     (if is_digit c then scan_digits (10 * acc + digit_val c) (Suc n) (d # cs)
      else if c = CHR ''_'' then
        (if is_digit d then scan_digits (10 * acc + digit_val d) (Suc n) cs else None)
      else Some (acc, n, c # d # cs))"

definition invalid_literal :: exn where
  "invalid_literal = ValueError ''invalid literal for int() with base 10''"

definition parse_unsigned :: "string \<Rightarrow> exn + nat" where
  "parse_unsigned s =
     (case s of
        [] \<Rightarrow> Inl invalid_literal
      | c # cs \<Rightarrow>
          if is_digit c then
            (case scan_digits (digit_val c) 1 cs of
               None \<Rightarrow> Inl invalid_literal
             | Some (v, n, rest) \<Rightarrow>
                 if 4300 < n then
                   Inl (ValueError ''Exceeds the limit (4300 digits) for integer string conversion'')
                 else if rest \<noteq> [] then Inl invalid_literal
                 else Inr v)
          else Inl invalid_literal)"

definition py_int :: "string \<Rightarrow> exn + int" where
  "py_int s =
     (case strip s of
        [] \<Rightarrow> Inl invalid_literal
      | c # cs \<Rightarrow>
          if c = CHR ''-'' then map_sum id (\<lambda>n. - int n) (parse_unsigned cs)
          else if c = CHR ''+'' then map_sum id int (parse_unsigned cs)
          else map_sum id int (parse_unsigned (c # cs)))"

text \<open>\<^verbatim>\<open>s.lower()\<close> on the ASCII letters.\<close>

definition str_lower :: "string \<Rightarrow> string" where
  "str_lower s =
     map (\<lambda>c. if 65 \<le> (of_char c :: nat) \<and> (of_char c :: nat) \<le> 90
               then char_of ((of_char c :: nat) + 32) else c) s"

text \<open>
  \<^verbatim>\<open>list(v)\<close>: a string gives its characters, a dictionary its keys; a number, a boolean
  or \<^verbatim>\<open>None\<close> is not iterable and raises \<^verbatim>\<open>TypeError\<close>.
\<close>

fun py_list :: "pyval \<Rightarrow> exn + pyval list" where
  "py_list (VList xs) = Inr xs"
| "py_list (VStr s) = Inr (map (\<lambda>c. VStr [c]) s)"
| "py_list (VDict d) = Inr (map (\<lambda>kv. VStr (fst kv)) d)"
| "py_list v = Inl (TypeError ''object is not iterable'')"

text \<open>
  The built-in conversions that the module calls and whose definition belongs to the
  interpreter: \<^verbatim>\<open>float(s)\<close> on a string (\<open>None\<close> when it raises \<^verbatim>\<open>ValueError\<close>),
  \<^verbatim>\<open>str(v)\<close> and \<^verbatim>\<open>dict(v)\<close>.
\<close>

record py_runtime =
  py_float :: "string \<Rightarrow> pyfloat option"
  py_str :: "pyval \<Rightarrow> string"
  py_dict :: "pyval \<Rightarrow> exn + pyval"

subsection \<open>Operators on a schema\<close>

fun is_substring :: "string \<Rightarrow> string \<Rightarrow> bool" where
  "is_substring s [] = (s = [])"
| "is_substring s (c # cs) = (take (length s) (c # cs) = s \<or> is_substring s cs)"

text \<open>\<^verbatim>\<open>key in container\<close> for a string key.\<close>

fun py_contains :: "pyval \<Rightarrow> string \<Rightarrow> exn + bool" where
  "py_contains (VDict d) k = Inr (map_of d k \<noteq> None)"
| "py_contains (VList xs) k = Inr (py_in_list (VStr k) xs)"
| "py_contains (VStr s) k = Inr (is_substring k s)"
| "py_contains v k = Inl (TypeError ''argument is not iterable'')"

text \<open>\<^verbatim>\<open>container.get(key, default)\<close>: only a dictionary has the method.\<close>

fun py_get :: "pyval \<Rightarrow> string \<Rightarrow> pyval \<Rightarrow> exn + pyval" where
  "py_get (VDict d) k dflt = Inr (case map_of d k of None \<Rightarrow> dflt | Some v \<Rightarrow> v)"
| "py_get v k dflt = Inl (AttributeError ''get'')"

text \<open>\<^verbatim>\<open>container[key]\<close> for a string key.\<close>

fun py_getitem :: "pyval \<Rightarrow> string \<Rightarrow> exn + pyval" where
  "py_getitem (VDict d) k =
     (case map_of d k of None \<Rightarrow> Inl (OtherError ''KeyError'') | Some v \<Rightarrow> Inr v)"
| "py_getitem v k = Inl (TypeError ''indices must be integers or object is not subscriptable'')"

subsection \<open>The coercion step\<close>

text \<open>The messages that \<^verbatim>\<open>_coerce_parameters\<close> hands to \<^verbatim>\<open>self.log\<close>.\<close>

datatype log_event =
    ParameterCoerced string pyval pyval
  | CoercionFailed string exn

text \<open>\<^verbatim>\<open>self.log\<close> emits a message only when \<^verbatim>\<open>debug_filtering\<close> is set.\<close>

definition self_log :: "bool \<Rightarrow> log_event \<Rightarrow> log_event list" where
  "self_log debug ev = (if debug then [ev] else [])"

text \<open>
  The conversion chosen by the declared type, inside the \<^verbatim>\<open>try\<close> block of
  \<^verbatim>\<open>_coerce_parameters\<close>: the value assigned to \<^verbatim>\<open>coerced[key]\<close>, or the exception raised.
\<close>

definition coerce_value :: "py_runtime \<Rightarrow> pyval \<Rightarrow> pyval \<Rightarrow> exn + pyval" where
  "coerce_value rt prop_type v =
     (if py_eq prop_type (VStr ''number'') \<or> py_eq prop_type (VStr ''integer'') then
        (case v of
           VStr s \<Rightarrow>
             if py_eq prop_type (VStr ''integer'') then map_sum id VInt (py_int s)
             else (case py_float rt s of
                     None \<Rightarrow> Inl (ValueError ''could not convert string to float'')
                   | Some f \<Rightarrow> Inr (VFloat f))
         | _ \<Rightarrow> Inr v)
      else if py_eq prop_type (VStr ''boolean'') then
        (case v of
           VStr s \<Rightarrow> Inr (VBool (str_lower s \<in> set [''true'', ''1'', ''yes'']))
         | _ \<Rightarrow> Inr (VBool (py_truthy v)))
      else if py_eq prop_type (VStr ''string'') then
        (case v of VStr s \<Rightarrow> Inr v | _ \<Rightarrow> Inr (VStr (py_str rt v)))
      else if py_eq prop_type (VStr ''array'') then
        (case v of VList xs \<Rightarrow> Inr v | _ \<Rightarrow> map_sum id VList (py_list v))
      else if py_eq prop_type (VStr ''object'') then
        (case v of VDict d \<Rightarrow> Inr v | _ \<Rightarrow> py_dict rt v)
      else Inr v)"

text \<open>
  One parameter inside \<^verbatim>\<open>try ... except (ValueError, TypeError)\<close>: the value stored under
  the key and the messages logged; another exception leaves the function. In the test
  \<^verbatim>\<open>coerced[key] != value\<close> the model compares by value.
\<close>

definition coerce_entry ::
  "bool \<Rightarrow> py_runtime \<Rightarrow> string \<Rightarrow> pyval \<Rightarrow> pyval \<Rightarrow> exn + pyval \<times> log_event list" where
  "coerce_entry debug rt key prop_type v =
     (case coerce_value rt prop_type v of
        Inr c \<Rightarrow>
          Inr (c, if debug \<and> \<not> py_eq c v then self_log debug (ParameterCoerced key v c) else [])
      | Inl e \<Rightarrow>
          if is_value_or_type_error e then Inr (v, self_log debug (CoercionFailed key e))
          else Inl e)"

text \<open>
  The loop of \<^verbatim>\<open>_coerce_parameters\<close> over \<^verbatim>\<open>params.items()\<close>, with the dictionary
  \<^verbatim>\<open>coerced\<close> built so far and the messages logged so far.
\<close>

fun coerce_loop ::
  "bool \<Rightarrow> py_runtime \<Rightarrow> pyval \<Rightarrow> (string \<times> pyval) list \<Rightarrow> (string \<times> pyval) list \<Rightarrow>
   log_event list \<Rightarrow> exn + (string \<times> pyval) list \<times> log_event list" where
  "coerce_loop debug rt properties [] coerced lg = Inr (coerced, lg)"
| "coerce_loop debug rt properties ((key, v) # items) coerced lg =
     (case py_contains properties key of
        Inl e \<Rightarrow> Inl e
      | Inr False \<Rightarrow> coerce_loop debug rt properties items (AList.update key v coerced) lg
      | Inr True \<Rightarrow>
          (case py_getitem properties key of
             Inl e \<Rightarrow> Inl e
           | Inr prop_schema \<Rightarrow>
               (case py_get prop_schema ''type'' VNone of
                  Inl e \<Rightarrow> Inl e
                | Inr prop_type \<Rightarrow>
                    if \<not> py_truthy prop_type \<or> v = VNone then
                      coerce_loop debug rt properties items (AList.update key v coerced) lg
                    else
                      (case coerce_entry debug rt key prop_type v of
                         Inl e \<Rightarrow> Inl e
                       | Inr (c, msgs) \<Rightarrow>
                           coerce_loop debug rt properties items
                             (AList.update key c coerced) (lg @ msgs)))))"

text \<open>
  \<^verbatim>\<open>_coerce_parameters\<close>: the coerced dictionary and the messages logged, or the exception
  that leaves the function. The first argument is \<^verbatim>\<open>self.debug_filtering\<close>.
\<close>

definition coerce_parameters ::
  "bool \<Rightarrow> py_runtime \<Rightarrow> (string \<times> pyval) list \<Rightarrow> pyval \<Rightarrow>
   exn + (string \<times> pyval) list \<times> log_event list" where
  "coerce_parameters debug rt params schema =
     (if \<not> py_truthy schema then Inr (params, [])
      else
        (case py_contains schema ''properties'' of
           Inl e \<Rightarrow> Inl e
         | Inr False \<Rightarrow> Inr (params, [])
         | Inr True \<Rightarrow>
             (case py_get schema ''properties'' (VDict []) of
                Inl e \<Rightarrow> Inl e
              | Inr properties \<Rightarrow> coerce_loop debug rt properties params [] [])))"

section \<open>Initialisation\<close>

text \<open>
  What a call of the entrypoint of a remote tool gives: the value of a coroutine, or the
  items of an asynchronous generator.
\<close>

datatype call_result = Completed pyval | Stream "pyval list"

type_synonym entrypoint = "(string \<times> pyval) list \<Rightarrow> exn + call_result"

text \<open>
  \<^verbatim>\<open>coercing_entrypoint\<close>, the closure made by \<^verbatim>\<open>create_coercing_entrypoint\<close>: it coerces
  the keyword arguments, calls the original entrypoint without the agent, and collects
  the items of a generator into a list. The first argument is the value of
  \<^verbatim>\<open>self_ref.debug_filtering\<close> at the time of the call.
\<close>

definition coercing_entrypoint ::
  "bool \<Rightarrow> py_runtime \<Rightarrow> pyval \<Rightarrow> entrypoint \<Rightarrow> (string \<times> pyval) list \<Rightarrow>
   exn + pyval \<times> log_event list" where
  "coercing_entrypoint debug rt schema original_fn kwargs =
     (case coerce_parameters debug rt kwargs schema of
        Inl e \<Rightarrow> Inl e
      | Inr (coerced_kwargs, msgs) \<Rightarrow>
          (case original_fn coerced_kwargs of
             Inl e \<Rightarrow> Inl e
           | Inr (Stream results) \<Rightarrow> Inr (VList results, msgs)
           | Inr (Completed r) \<Rightarrow> Inr (r, msgs)))"

text \<open>The agno \<^verbatim>\<open>Function\<close> registered for a tool.\<close>

record function_obj =
  fn_name :: string
  fn_description :: "string option"
  fn_parameters :: pyval
  fn_entrypoint :: "bool \<Rightarrow> (string \<times> pyval) list \<Rightarrow> exn + pyval \<times> log_event list"

text \<open>
  The MCP client session. The outcome of the k-th call of \<^verbatim>\<open>session.initialize()\<close> and of
  \<^verbatim>\<open>session.list_tools()\<close> is given by a script; the session counts the calls made.
\<close>

record session =
  initialize_script :: "nat \<Rightarrow> exn option"
  list_tools_script :: "nat \<Rightarrow> exn + tool list"
  initialize_calls :: nat
  list_tools_calls :: nat

text \<open>
  The functions of the agno library that \<^verbatim>\<open>initialize\<close> calls: the check of the
  include and exclude lists against the available names, the entrypoint of a tool on a
  session, and the validation that the constructor of \<^verbatim>\<open>Function\<close> performs on its
  arguments (\<open>Some e\<close> when it raises).
\<close>

record agno =
  check_tools_filters :: "string list \<Rightarrow> string list option \<Rightarrow> string list option \<Rightarrow> exn option"
  get_entrypoint_for_tool :: "tool \<Rightarrow> session \<Rightarrow> exn + entrypoint"
  Function_init :: "string \<Rightarrow> string option \<Rightarrow> pyval \<Rightarrow> exn option"

text \<open>A \<^verbatim>\<open>FilteredMCPTools\<close> instance; \<open>tool_functions\<close> is the registry \<^verbatim>\<open>self.functions\<close>,
  in insertion order.\<close>

record filtered_mcp_tools = filter_config +
  include_tools :: "string list option"
  exclude_tools :: "string list option"
  session :: "session option"
  tool_functions :: "(string \<times> function_obj) list"
  initialized :: bool

text \<open>The include and exclude loop of \<^verbatim>\<open>initialize\<close> over the annotation-filtered tools.\<close>

fun final_filter_tools :: "string list option \<Rightarrow> string list option \<Rightarrow> tool list \<Rightarrow> tool list" where
  "final_filter_tools incl excl [] = []"
| "final_filter_tools incl excl (t # ts) =
     (if (case excl of None \<Rightarrow> False | Some ex \<Rightarrow> ex \<noteq> [] \<and> name t \<in> set ex) then
        final_filter_tools incl excl ts
      else if (case incl of None \<Rightarrow> True | Some inc \<Rightarrow> name t \<in> set inc) then
        t # final_filter_tools incl excl ts
      else final_filter_tools incl excl ts)"

text \<open>
  The steps of \<^verbatim>\<open>initialize\<close> between the check of the session and the registration
  loop: the session is initialised, the catalogue is fetched and filtered by annotations,
  the include and exclude lists are checked and applied. The result is
  \<^verbatim>\<open>final_filtered_tools\<close> or the exception raised, with the session as the calls leave it.
\<close>

definition fetch_and_filter ::
  "agno \<Rightarrow> filtered_mcp_tools \<Rightarrow> session \<Rightarrow> (exn + tool list) \<times> session" where
  "fetch_and_filter env self s =
     (let s1 = s\<lparr>initialize_calls := Suc (initialize_calls s)\<rparr>
      in case initialize_script s (initialize_calls s) of
           Some e \<Rightarrow> (Inl e, s1)
         | None \<Rightarrow>
             (let s2 = s1\<lparr>list_tools_calls := Suc (list_tools_calls s1)\<rparr>
              in case list_tools_script s1 (list_tools_calls s1) of
                   Inl e \<Rightarrow> (Inl e, s2)
                 | Inr available_tools \<Rightarrow>
                     (case annotation_filter_tools self available_tools of
                        Inl e \<Rightarrow> (Inl e, s2)
                      | Inr annotation_filtered_tools \<Rightarrow>
                          (case check_tools_filters env
                                  (map name annotation_filtered_tools)
                                  (include_tools self) (exclude_tools self) of
                             Some e \<Rightarrow> (Inl e, s2)
                           | None \<Rightarrow>
                               (Inr (final_filter_tools (include_tools self)
                                       (exclude_tools self) annotation_filtered_tools),
                                s2)))))"

text \<open>
  The body of the \<^verbatim>\<open>try\<close> block of the registration loop for one tool, up to the
  \<^verbatim>\<open>Function\<close> built.
\<close>

definition build_function :: "agno \<Rightarrow> py_runtime \<Rightarrow> session \<Rightarrow> tool \<Rightarrow> exn + function_obj" where
  "build_function env rt s t =
     (case get_entrypoint_for_tool env t s of
        Inl e \<Rightarrow> Inl e
      | Inr original_entrypoint \<Rightarrow>
          (case Function_init env (name t) (description t) (inputSchema t) of
             Some e \<Rightarrow> Inl e
           | None \<Rightarrow>
               Inr \<lparr>fn_name = name t,
                    fn_description = description t,
                    fn_parameters = inputSchema t,
                    fn_entrypoint =
                      (\<lambda>debug kwargs.
                         coercing_entrypoint debug rt (inputSchema t) original_entrypoint kwargs)\<rparr>))"

text \<open>
  The registration loop: a tool whose \<^verbatim>\<open>Function\<close> cannot be built is skipped
  (\<^verbatim>\<open>except Exception\<close> only logs), the others are stored under their name.
\<close>

fun register_tools ::
  "agno \<Rightarrow> py_runtime \<Rightarrow> session \<Rightarrow> tool list \<Rightarrow> (string \<times> function_obj) list \<Rightarrow>
   (string \<times> function_obj) list" where
  "register_tools env rt s [] fs = fs"
| "register_tools env rt s (t # ts) fs =
     (case build_function env rt s t of
        Inl e \<Rightarrow> register_tools env rt s ts fs
      | Inr f \<Rightarrow> register_tools env rt s ts (AList.update (fn_name f) f fs))"

text \<open>
  \<^verbatim>\<open>initialize\<close>: \<open>Inr ()\<close> when it returns, \<open>Inl e\<close> when it raises \<open>e\<close> (the handler
  \<^verbatim>\<open>except Exception\<close> around the whole body logs and raises again), with the instance
  afterwards.
\<close>

definition initialize ::
  "agno \<Rightarrow> py_runtime \<Rightarrow> filtered_mcp_tools \<Rightarrow> (exn + unit) \<times> filtered_mcp_tools" where
  "initialize env rt self =
     (if initialized self then (Inr (), self)
      else
        (case session self of
           None \<Rightarrow> (Inl (ValueError ''Failed to establish session connection''), self)
         | Some s \<Rightarrow>
             (case fetch_and_filter env self s of
                (Inl e, s') \<Rightarrow> (Inl e, self\<lparr>session := Some s'\<rparr>)
              | (Inr final_filtered_tools, s') \<Rightarrow>
                  (Inr (),
                   self\<lparr>session := Some s',
                        tool_functions :=
                          register_tools env rt s' final_filtered_tools (tool_functions self),
                        initialized := True\<rparr>))))"

section \<open>Example inputs\<close>

text \<open>
  Concrete inputs for the examples below. No example reaches \<^verbatim>\<open>float\<close>, \<^verbatim>\<open>str\<close> or
  \<^verbatim>\<open>dict\<close>, so the runtime of the examples gives them a fixed outcome.
\<close>

definition plain_runtime :: py_runtime where
  "plain_runtime =
     \<lparr>py_float = (\<lambda>s. None), py_str = (\<lambda>v. []),
      py_dict = (\<lambda>v. Inl (TypeError ''cannot convert''))\<rparr>"

text \<open>A tool without annotations, and a tool whose only annotation is \<^verbatim>\<open>toolsets\<close>.\<close>

definition plain_tool :: "string \<Rightarrow> tool" where
  "plain_tool n = \<lparr>name = n, description = None, inputSchema = VDict [], annotations = Attr None\<rparr>"

definition tagged_tool :: "string \<Rightarrow> pyval \<Rightarrow> tool" where
  "tagged_tool n ts =
     \<lparr>name = n, description = None, inputSchema = VDict [],
      annotations =
        Attr (Some \<lparr>truthy = Inr True,
                    getattr = (\<lambda>k. if k = ''toolsets'' then Attr ts else NoAttr)\<rparr>)\<rparr>"

text \<open>A session that initialises and answers every \<^verbatim>\<open>list_tools\<close> call with \<open>r\<close>.\<close>

definition scripted_session :: "(exn + tool list) \<Rightarrow> session" where
  "scripted_session r =
     \<lparr>initialize_script = (\<lambda>k. None), list_tools_script = (\<lambda>k. r),
      initialize_calls = 0, list_tools_calls = 0\<rparr>"

text \<open>A session whose first \<^verbatim>\<open>list_tools\<close> call raises and whose later calls answer \<open>ts\<close>.\<close>

definition flaky_session :: "exn \<Rightarrow> tool list \<Rightarrow> session" where
  "flaky_session e ts =
     \<lparr>initialize_script = (\<lambda>k. None),
      list_tools_script = (\<lambda>k. if k = 0 then Inl e else Inr ts),
      initialize_calls = 0, list_tools_calls = 0\<rparr>"

text \<open>An instance as the constructor leaves it when no filter argument is given.\<close>

definition fresh_instance :: "session option \<Rightarrow> filtered_mcp_tools" where
  "fresh_instance s =
     \<lparr>annotation_filters = [], custom_filter = None, debug_filtering = False,
      include_tools = None, exclude_tools = None, session = s,
      tool_functions = [], initialized = False\<rparr>"

text \<open>An instance constructed with \<^verbatim>\<open>annotation_filters={"toolsets": rule}\<close>.\<close>

definition toolsets_instance :: "pyval \<Rightarrow> session option \<Rightarrow> filtered_mcp_tools" where
  "toolsets_instance rule s =
     (fresh_instance s)\<lparr>annotation_filters := [(''toolsets'', Value rule)]\<rparr>"

text \<open>
  A library whose name check passes and which gives an entrypoint for every tool but
  those named in \<open>bad\<close>.
\<close>

definition plain_agno :: "string list \<Rightarrow> agno" where
  "plain_agno bad =
     \<lparr>check_tools_filters = (\<lambda>available incl excl. None),
      get_entrypoint_for_tool =
        (\<lambda>t s. if name t \<in> set bad then Inl (OtherError ''no entrypoint'')
               else Inr (\<lambda>kwargs. Inr (Completed VNone))),
      Function_init = (\<lambda>n d p. None)\<rparr>"

text \<open>The input schema of a tool with one property \<open>key\<close> of declared type \<open>ty\<close>.\<close>

definition typed_schema :: "string \<Rightarrow> string \<Rightarrow> pyval" where
  "typed_schema key ty =
     VDict [(''type'', VStr ''object''),
            (''properties'', VDict [(key, VDict [(''type'', VStr ty)])])]"

text \<open>A session whose \<^verbatim>\<open>initialize\<close> raises \<open>e\<close>.\<close>

definition refusing_session :: "exn \<Rightarrow> session" where
  "refusing_session e =
     \<lparr>initialize_script = (\<lambda>k. Some e), list_tools_script = (\<lambda>k. Inr []),
      initialize_calls = 0, list_tools_calls = 0\<rparr>"

text \<open>
  A library whose name check raises when a name of the include list is not among the
  available tools.
\<close>

definition checking_agno :: agno where
  "checking_agno =
     (plain_agno [])
       \<lparr>check_tools_filters :=
          (\<lambda>available incl excl.
             case incl of
               None \<Rightarrow> None
             | Some inc \<Rightarrow>
                 if list_all (\<lambda>n. n \<in> set available) inc then None
                 else Some (ValueError ''Included tool(s) not present in the toolkit''))\<rparr>"

lemmas fixture_defs = plain_runtime_def plain_tool_def tagged_tool_def scripted_session_def
  flaky_session_def fresh_instance_def toolsets_instance_def plain_agno_def typed_schema_def
  refusing_session_def checking_agno_def

lemmas int_defs = py_int_def strip_def is_space_def parse_unsigned_def invalid_literal_def
  is_digit_def digit_val_def

section \<open>Annotation extraction\<close>

text \<open>
  C9: \<^verbatim>\<open>_get_annotation_value\<close> is total and never raises. Whatever the tool and the key,
  it returns a value; the value is \<^verbatim>\<open>None\<close> when the tool has no \<^verbatim>\<open>annotations\<close>
  attribute, when reading that attribute raises, when the annotations are \<^verbatim>\<open>None\<close> or
  falsy, when their truth test raises, when the key is absent and when reading the key
  raises. Only a key that is present on truthy annotations yields its value.
\<close>

theorem get_annotation_value_total:
  "get_annotation_value t k =
     Inr (case annotations t of
            Attr (Some a) \<Rightarrow>
              (case truthy a of
                 Inr True \<Rightarrow> (case getattr a k of Attr v \<Rightarrow> v | _ \<Rightarrow> VNone)
               | _ \<Rightarrow> VNone)
          | _ \<Rightarrow> VNone)"
  by (simp add: get_annotation_value_def get_annotation_value_body_def py_try_def
      split: attr.splits option.splits sum.splits bool.splits)

text \<open>
  The annotation of a tagged tool is read, a key it does not have gives \<^verbatim>\<open>None\<close>, and so
  does a tool whose \<^verbatim>\<open>annotations\<close> attribute raises when read.
\<close>

theorem get_annotation_value_total_witness:
  "get_annotation_value (tagged_tool ''t'' (VList [VStr ''a''])) ''toolsets'' = Inr (VList [VStr ''a''])
   \<and> get_annotation_value (tagged_tool ''t'' (VList [VStr ''a''])) ''title'' = Inr VNone
   \<and> get_annotation_value ((plain_tool ''t'')\<lparr>annotations := AttrRaises (OtherError ''boom'')\<rparr>)
        ''toolsets'' = Inr VNone"
  using get_annotation_value_total [of "tagged_tool ''t'' (VList [VStr ''a''])" "''toolsets''"]
    get_annotation_value_total [of "tagged_tool ''t'' (VList [VStr ''a''])" "''title''"]
    get_annotation_value_total
      [of "(plain_tool ''t'')\<lparr>annotations := AttrRaises (OtherError ''boom'')\<rparr>" "''toolsets''"]
  by (simp add: tagged_tool_def plain_tool_def)

section \<open>The inclusion decision without filters\<close>

lemma annotation_filter_tools_all:
  "(\<And>t. should_include_tool self t = Inr True) \<Longrightarrow> annotation_filter_tools self ts = Inr ts"
  by (induction ts) simp_all

text \<open>
  C10: when neither \<^verbatim>\<open>annotation_filters\<close> nor \<^verbatim>\<open>toolsets\<close> is given, the constructor
  stores the empty filter specification; with an empty specification and no custom
  predicate, \<^verbatim>\<open>_should_include_tool\<close> is \<^verbatim>\<open>True\<close> for every tool, and the annotation
  filtering of \<^verbatim>\<open>initialize\<close> returns the catalogue as it is.
\<close>

theorem empty_filters_include_all:
  assumes "custom_filter self = None" and "annotation_filters self = []"
  shows "init_annotation_filters None None = Inr []
       \<and> should_include_tool self t = Inr True
       \<and> annotation_filter_tools self ts = Inr ts"
proof -
  have inc: "should_include_tool self u = Inr True" for u
    using assms by (simp add: should_include_tool_def)
  show ?thesis
    using inc by (simp add: init_annotation_filters_def annotation_filter_tools_all)
qed

theorem empty_filters_include_all_witness:
  "custom_filter (fresh_instance None) = None
   \<and> annotation_filters (fresh_instance None) = []
   \<and> should_include_tool (fresh_instance None) (tagged_tool ''a'' (VStr ''x'')) = Inr True
   \<and> annotation_filter_tools (fresh_instance None) [plain_tool ''a'', tagged_tool ''b'' VNone]
       = Inr [plain_tool ''a'', tagged_tool ''b'' VNone]"
proof -
  have h1: "custom_filter (fresh_instance None) = None"
    and h2: "annotation_filters (fresh_instance None) = []"
    by (simp_all add: fresh_instance_def)
  show ?thesis
    using empty_filters_include_all
      [OF h1 h2, of "tagged_tool ''a'' (VStr ''x'')" "[plain_tool ''a'', tagged_tool ''b'' VNone]"]
      h1 h2
    by simp
qed

section \<open>The include and exclude lists\<close>

text \<open>
  C5: the include and exclude loop keeps a tool of the annotation-filtered catalogue
  exactly when its name is not in the exclude list (if one is set) and is in the include
  list (if one is set). So a name in both lists is excluded, and a name missing from a
  set include list is excluded. The kept tools stay in catalogue order.
\<close>

theorem exclude_wins_over_include:
  "final_filter_tools incl excl ts =
     filter (\<lambda>t. \<not> (case excl of None \<Rightarrow> False | Some ex \<Rightarrow> name t \<in> set ex)
               \<and> (case incl of None \<Rightarrow> True | Some inc \<Rightarrow> name t \<in> set inc)) ts"
  by (induction ts) (auto split: option.splits)

text \<open>With include \<^verbatim>\<open>["x", "y"]\<close> and exclude \<^verbatim>\<open>["y"]\<close>, of the tools x, y and z only x is kept.\<close>

theorem exclude_wins_over_include_witness:
  "final_filter_tools (Some [''x'', ''y'']) (Some [''y''])
     [plain_tool ''x'', plain_tool ''y'', plain_tool ''z''] = [plain_tool ''x'']"
  using exclude_wins_over_include [of "Some [''x'', ''y'']" "Some [''y'']"
      "[plain_tool ''x'', plain_tool ''y'', plain_tool ''z'']"]
  by (simp add: plain_tool_def)

section \<open>Initialisation\<close>

text \<open>
  C8: on an instance that is already initialised, \<^verbatim>\<open>initialize\<close> returns at once and
  leaves the whole instance as it was: the registry is unchanged and the session has
  received no further call, so no catalogue is fetched.
\<close>

theorem initialize_idempotent:
  assumes "initialized self"
  shows "initialize env rt self = (Inr (), self)"
  using assms by (simp add: initialize_def)

theorem initialize_idempotent_witness:
  "initialized ((fresh_instance (Some (scripted_session (Inr [plain_tool ''a'']))))\<lparr>initialized := True\<rparr>)
   \<and> initialize (plain_agno []) plain_runtime
        ((fresh_instance (Some (scripted_session (Inr [plain_tool ''a'']))))\<lparr>initialized := True\<rparr>)
      = (Inr (), (fresh_instance (Some (scripted_session (Inr [plain_tool ''a'']))))\<lparr>initialized := True\<rparr>)"
  using initialize_idempotent
    [of "(fresh_instance (Some (scripted_session (Inr [plain_tool ''a'']))))\<lparr>initialized := True\<rparr>"
        "plain_agno []" plain_runtime]
  by simp

text \<open>
  C7: when the filtered catalogue is A, B, C and building the function of B raises while
  A and C build, \<^verbatim>\<open>initialize\<close> returns normally, the instance is initialised, and the
  registry is the one from before with A and C stored under their names; B is skipped.
  On an empty registry the registered names are exactly those of A and C.
\<close>

theorem partial_failure_isolation:
  assumes "\<not> initialized self"
    and "session self = Some s"
    and "fetch_and_filter env self s = (Inr [A, B, C], s')"
    and "build_function env rt s' A = Inr fa"
    and "build_function env rt s' B = Inl e"
    and "build_function env rt s' C = Inr fc"
  shows "initialize env rt self =
           (Inr (),
            self\<lparr>session := Some s',
                 tool_functions :=
                   AList.update (name C) fc (AList.update (name A) fa (tool_functions self)),
                 initialized := True\<rparr>)
       \<and> (tool_functions self = [] \<longrightarrow>
            set (map fst (tool_functions (snd (initialize env rt self)))) = {name A, name C})"
proof -
  have na: "fn_name fa = name A" and nc: "fn_name fc = name C"
    using assms(4,6) by (auto simp: build_function_def split: sum.splits option.splits)
  have reg: "register_tools env rt s' [A, B, C] fs =
               AList.update (name C) fc (AList.update (name A) fa fs)" for fs
    using assms(4-6) na nc by simp
  have ini: "initialize env rt self =
           (Inr (),
            self\<lparr>session := Some s',
                 tool_functions :=
                   AList.update (name C) fc (AList.update (name A) fa (tool_functions self)),
                 initialized := True\<rparr>)"
    using assms(1-3) by (simp add: initialize_def reg del: register_tools.simps)
  show ?thesis
    unfolding ini by (auto simp: dom_update)
qed

text \<open>A fresh instance, a catalogue of three tools, and no entrypoint for the tool B.\<close>

theorem partial_failure_isolation_witness:
  "\<not> initialized (fresh_instance (Some (scripted_session (Inr [plain_tool ''A'', plain_tool ''B'', plain_tool ''C'']))))
   \<and> fst (initialize (plain_agno [''B'']) plain_runtime
        (fresh_instance (Some (scripted_session (Inr [plain_tool ''A'', plain_tool ''B'', plain_tool ''C''])))))
      = Inr ()
   \<and> initialized (snd (initialize (plain_agno [''B'']) plain_runtime
        (fresh_instance (Some (scripted_session (Inr [plain_tool ''A'', plain_tool ''B'', plain_tool ''C'']))))))
   \<and> set (map fst (tool_functions (snd (initialize (plain_agno [''B'']) plain_runtime
        (fresh_instance (Some (scripted_session (Inr [plain_tool ''A'', plain_tool ''B'', plain_tool ''C'']))))))))
      = {''A'', ''C''}"
proof -
  let ?s = "scripted_session (Inr [plain_tool ''A'', plain_tool ''B'', plain_tool ''C''])"
  let ?s' = "?s\<lparr>initialize_calls := 1, list_tools_calls := 1\<rparr>"
  let ?self = "fresh_instance (Some ?s)"
  let ?env = "plain_agno [''B'']"
  let ?f = "\<lambda>t. \<lparr>fn_name = name t, fn_description = description t, fn_parameters = inputSchema t,
               fn_entrypoint = (\<lambda>debug kwargs. coercing_entrypoint debug plain_runtime
                  (inputSchema t) (\<lambda>kwargs. Inr (Completed VNone)) kwargs)\<rparr>"
  have h1: "\<not> initialized ?self" by (simp add: fresh_instance_def)
  have h2: "session ?self = Some ?s" by (simp add: fresh_instance_def)
  have h3: "fetch_and_filter ?env ?self ?s =
              (Inr [plain_tool ''A'', plain_tool ''B'', plain_tool ''C''], ?s')"
    by (simp add: fetch_and_filter_def fixture_defs should_include_tool_def)
  have h4: "build_function ?env plain_runtime ?s' (plain_tool ''A'') = Inr (?f (plain_tool ''A''))"
    by (simp add: build_function_def plain_agno_def plain_tool_def)
  have h5: "build_function ?env plain_runtime ?s' (plain_tool ''B'') = Inl (OtherError ''no entrypoint'')"
    by (simp add: build_function_def plain_agno_def plain_tool_def)
  have h6: "build_function ?env plain_runtime ?s' (plain_tool ''C'') = Inr (?f (plain_tool ''C''))"
    by (simp add: build_function_def plain_agno_def plain_tool_def)
  have e: "tool_functions ?self = []" by (simp add: fresh_instance_def)
  show ?thesis
    using partial_failure_isolation [OF h1 h2 h3 h4 h5 h6] h1 e
    by (simp add: plain_tool_def)
qed

text \<open>
  C4, as the code has it: on an instance that is not initialised, \<^verbatim>\<open>initialize\<close> raises
  \<open>e\<close> exactly in these cases, tried in this order: the session is missing and \<open>e\<close> is the
  \<^verbatim>\<open>ValueError\<close> of the connection; \<^verbatim>\<open>session.initialize()\<close> raises \<open>e\<close>;
  \<^verbatim>\<open>session.list_tools()\<close> raises \<open>e\<close>; the annotation filtering of the fetched catalogue
  raises \<open>e\<close>; \<^verbatim>\<open>_check_tools_filters\<close> raises \<open>e\<close> on the names of the filtered
  catalogue. When it raises, the registry is the one from before the call and the
  instance is still not initialised. There is no separate failed state, and an exception
  while one tool's function is built is not among the causes (see C7).
\<close>

theorem initialize_failure:
  assumes "\<not> initialized self"
  shows "(fst (initialize env rt self) = Inl e) =
           (case session self of
              None \<Rightarrow> e = ValueError ''Failed to establish session connection''
            | Some s \<Rightarrow>
                (case initialize_script s (initialize_calls s) of
                   Some e1 \<Rightarrow> e = e1
                 | None \<Rightarrow>
                     (case list_tools_script s (list_tools_calls s) of
                        Inl e2 \<Rightarrow> e = e2
                      | Inr available_tools \<Rightarrow>
                          (case annotation_filter_tools self available_tools of
                             Inl e3 \<Rightarrow> e = e3
                           | Inr annotation_filtered_tools \<Rightarrow>
                               check_tools_filters env (map name annotation_filtered_tools)
                                 (include_tools self) (exclude_tools self) = Some e))))
       \<and> (fst (initialize env rt self) = Inl e \<longrightarrow>
            tool_functions (snd (initialize env rt self)) = tool_functions self
          \<and> \<not> initialized (snd (initialize env rt self)))"
  using assms
  by (auto simp: initialize_def fetch_and_filter_def Let_def
      split: option.splits prod.splits sum.splits)

text \<open>
  One input for each cause: no session, a session whose \<^verbatim>\<open>initialize\<close> raises, a catalogue
  fetch that raises, an annotation rule that raises, and an include list naming a tool
  that is not available. Each exception reaches the caller; after the last the registry is
  still empty and the instance not initialised.
\<close>

theorem initialize_failure_witness:
  "\<not> initialized (fresh_instance None)
   \<and> fst (initialize (plain_agno []) plain_runtime (fresh_instance None))
       = Inl (ValueError ''Failed to establish session connection'')
   \<and> fst (initialize (plain_agno []) plain_runtime
          (fresh_instance (Some (refusing_session (OtherError ''handshake failed'')))))
       = Inl (OtherError ''handshake failed'')
   \<and> fst (initialize (plain_agno []) plain_runtime
          (fresh_instance (Some (scripted_session (Inl (OtherError ''connection lost''))))))
       = Inl (OtherError ''connection lost'')
   \<and> fst (initialize (plain_agno []) plain_runtime
          (toolsets_instance (VList [VStr ''a''])
             (Some (scripted_session (Inr [tagged_tool ''t'' (VList [VList [VStr ''a'']])])))))
       = Inl (TypeError ''unhashable type'')
   \<and> fst (initialize checking_agno plain_runtime
          ((fresh_instance (Some (scripted_session (Inr [plain_tool ''A'']))))
             \<lparr>include_tools := Some [''missing'']\<rparr>))
       = Inl (ValueError ''Included tool(s) not present in the toolkit'')
   \<and> tool_functions (snd (initialize checking_agno plain_runtime
          ((fresh_instance (Some (scripted_session (Inr [plain_tool ''A'']))))
             \<lparr>include_tools := Some [''missing'']\<rparr>)))
       = []
   \<and> \<not> initialized (snd (initialize checking_agno plain_runtime
          ((fresh_instance (Some (scripted_session (Inr [plain_tool ''A'']))))
             \<lparr>include_tools := Some [''missing'']\<rparr>)))"
proof -
  let ?i0 = "fresh_instance None"
  let ?i1 = "fresh_instance (Some (refusing_session (OtherError ''handshake failed'')))"
  let ?i2 = "fresh_instance (Some (scripted_session (Inl (OtherError ''connection lost''))))"
  let ?i3 = "toolsets_instance (VList [VStr ''a''])
               (Some (scripted_session (Inr [tagged_tool ''t'' (VList [VList [VStr ''a'']])])))"
  let ?i4 = "(fresh_instance (Some (scripted_session (Inr [plain_tool ''A'']))))
               \<lparr>include_tools := Some [''missing'']\<rparr>"
  have h0: "\<not> initialized ?i0" and h1: "\<not> initialized ?i1" and h2: "\<not> initialized ?i2"
    and h3: "\<not> initialized ?i3" and h4: "\<not> initialized ?i4"
    by (simp_all add: fixture_defs)
  have r0: "fst (initialize (plain_agno []) plain_runtime ?i0)
              = Inl (ValueError ''Failed to establish session connection'')"
    using initialize_failure [OF h0, of "plain_agno []" plain_runtime
        "ValueError ''Failed to establish session connection''"]
    by (simp add: fresh_instance_def)
  have r1: "fst (initialize (plain_agno []) plain_runtime ?i1) = Inl (OtherError ''handshake failed'')"
    using initialize_failure [OF h1, of "plain_agno []" plain_runtime "OtherError ''handshake failed''"]
    by (simp add: fresh_instance_def refusing_session_def)
  have r2: "fst (initialize (plain_agno []) plain_runtime ?i2) = Inl (OtherError ''connection lost'')"
    using initialize_failure [OF h2, of "plain_agno []" plain_runtime "OtherError ''connection lost''"]
    by (simp add: fresh_instance_def scripted_session_def)
  have r3: "fst (initialize (plain_agno []) plain_runtime ?i3) = Inl (TypeError ''unhashable type'')"
    using initialize_failure [OF h3, of "plain_agno []" plain_runtime "TypeError ''unhashable type''"]
    by (simp add: fixture_defs should_include_tool_def get_annotation_value_def
        get_annotation_value_body_def py_try_def annotation_value_matches_filter_def py_set_def)
  have r4: "fst (initialize checking_agno plain_runtime ?i4)
              = Inl (ValueError ''Included tool(s) not present in the toolkit'')
            \<and> tool_functions (snd (initialize checking_agno plain_runtime ?i4)) = []
            \<and> \<not> initialized (snd (initialize checking_agno plain_runtime ?i4))"
    using initialize_failure [OF h4, of checking_agno plain_runtime
        "ValueError ''Included tool(s) not present in the toolkit''"]
    by (simp add: fixture_defs should_include_tool_def)
  show ?thesis
    using h0 r0 r1 r2 r3 r4 by simp
qed

text \<open>
  C4 as stated fails: with a catalogue whose only tool B has no entrypoint, the exception
  raised while the function of B is built does not abort \<^verbatim>\<open>initialize\<close>. The call returns
  normally and the instance is initialised.
\<close>

theorem initialize_build_error_counterexample:
  "fst (initialize (plain_agno [''B'']) plain_runtime
          (fresh_instance (Some (scripted_session (Inr [plain_tool ''B''])))))
     = Inr ()
   \<and> initialized (snd (initialize (plain_agno [''B'']) plain_runtime
          (fresh_instance (Some (scripted_session (Inr [plain_tool ''B'']))))))"
  by (simp add: initialize_def fetch_and_filter_def build_function_def should_include_tool_def
      fixture_defs)

text \<open>
  A failed call is not final either: when the first catalogue fetch raises and the next
  one answers, a second call of \<^verbatim>\<open>initialize\<close> on the instance left by the first succeeds.
\<close>

lemma initialize_retry_after_failure:
  "fst (initialize (plain_agno []) plain_runtime
          (fresh_instance (Some (flaky_session (OtherError ''timeout'') [plain_tool ''A'']))))
     = Inl (OtherError ''timeout'')
   \<and> fst (initialize (plain_agno []) plain_runtime
            (snd (initialize (plain_agno []) plain_runtime
               (fresh_instance (Some (flaky_session (OtherError ''timeout'') [plain_tool ''A'']))))))
     = Inr ()
   \<and> map fst (tool_functions (snd (initialize (plain_agno []) plain_runtime
            (snd (initialize (plain_agno []) plain_runtime
               (fresh_instance (Some (flaky_session (OtherError ''timeout'') [plain_tool ''A'']))))))))
     = [''A'']"
  by (simp add: initialize_def fetch_and_filter_def build_function_def should_include_tool_def
      fixture_defs)

section \<open>Parameter coercion\<close>

lemma coerce_parameters_single:
  "py_truthy (VStr ty) \<Longrightarrow> v \<noteq> VNone \<Longrightarrow>
   coerce_parameters debug rt [(key, v)] (typed_schema key ty) =
     map_sum id (\<lambda>(c, msgs). ([(key, c)], msgs)) (coerce_entry debug rt key (VStr ty) v)"
  by (cases "coerce_entry debug rt key (VStr ty) v")
     (auto simp: coerce_parameters_def typed_schema_def)

text \<open>
  C1, as the code has it: for a parameter of declared type \<^verbatim>\<open>array\<close>, a list is kept as
  it is, a string becomes the list of its characters and a dictionary the list of its
  keys (the empty list when it is empty); every other value (a number, a boolean,
  \<^verbatim>\<open>None\<close>) is stored unchanged, since \<^verbatim>\<open>list\<close> raises \<^verbatim>\<open>TypeError\<close> on it and the
  handler passes the original value through. The coercion of the parameter never raises.
  The second equation is the whole of \<^verbatim>\<open>_coerce_parameters\<close> on one parameter.
\<close>

theorem array_coercion:
  "map_sum id fst (coerce_entry debug rt key (VStr ''array'') v) =
     Inr (case v of
            VStr s \<Rightarrow> VList (map (\<lambda>c. VStr [c]) s)
          | VDict d \<Rightarrow> VList (map (\<lambda>kv. VStr (fst kv)) d)
          | _ \<Rightarrow> v)
   \<and> map_sum id fst (coerce_parameters debug rt [(key, v)] (typed_schema key ''array'')) =
     Inr [(key, case v of
            VStr s \<Rightarrow> VList (map (\<lambda>c. VStr [c]) s)
          | VDict d \<Rightarrow> VList (map (\<lambda>kv. VStr (fst kv)) d)
          | _ \<Rightarrow> v)]"
  by (cases v)
     (simp_all add: coerce_entry_def coerce_value_def coerce_parameters_def typed_schema_def)

theorem array_coercion_witness:
  "map_sum id fst (coerce_parameters True plain_runtime [(''xs'', VStr ''ab'')]
                     (typed_schema ''xs'' ''array''))
     = Inr [(''xs'', VList [VStr ''a'', VStr ''b''])]
   \<and> map_sum id fst (coerce_parameters True plain_runtime [(''xs'', VBool True)]
                       (typed_schema ''xs'' ''array''))
     = Inr [(''xs'', VBool True)]"
  using array_coercion [of True plain_runtime "''xs''" "VStr ''ab''"]
    array_coercion [of True plain_runtime "''xs''" "VBool True"]
  by simp

text \<open>
  C1 as stated fails: the integer 5 supplied for an \<^verbatim>\<open>array\<close> parameter is not wrapped.
  The coerced dictionary holds 5, which is not a sequence, and the failure is logged.
\<close>

theorem array_coercion_counterexample:
  "coerce_parameters True plain_runtime [(''xs'', VInt 5)] (typed_schema ''xs'' ''array'') =
     Inr ([(''xs'', VInt 5)], [CoercionFailed ''xs'' (TypeError ''object is not iterable'')])"
  by (simp add: coerce_parameters_def coerce_entry_def coerce_value_def self_log_def typed_schema_def)

lemma map_sum_id_Inl: "map_sum id f x = Inl e \<Longrightarrow> x = Inl e"
  by (cases x) simp_all

lemma parse_unsigned_error: "parse_unsigned s = Inl e \<Longrightarrow> is_value_or_type_error e"
  by (auto simp: parse_unsigned_def invalid_literal_def
      split: list.splits option.splits if_splits)

text \<open>\<^verbatim>\<open>int\<close> on a string raises nothing but \<^verbatim>\<open>ValueError\<close>.\<close>

lemma py_int_error: "py_int s = Inl e \<Longrightarrow> is_value_or_type_error e"
  by (auto simp: py_int_def invalid_literal_def split: list.splits if_splits
      dest!: map_sum_id_Inl parse_unsigned_error)

lemma coerce_entry_integer_str:
  "coerce_entry debug rt key (VStr ''integer'') (VStr s) =
     (case py_int s of
        Inr i \<Rightarrow> Inr (VInt i, if debug then [ParameterCoerced key (VStr s) (VInt i)] else [])
      | Inl e \<Rightarrow> Inr (VStr s, if debug then [CoercionFailed key e] else []))"
  by (cases "py_int s")
     (simp_all add: coerce_entry_def coerce_value_def self_log_def py_int_error)

lemma coerce_entry_number_str:
  "coerce_entry debug rt key (VStr ''number'') (VStr s) =
     (case py_float rt s of
        Some f \<Rightarrow> Inr (VFloat f, if debug then [ParameterCoerced key (VStr s) (VFloat f)] else [])
      | None \<Rightarrow>
          Inr (VStr s,
               if debug then [CoercionFailed key (ValueError ''could not convert string to float'')]
               else []))"
  by (cases "py_float rt s") (simp_all add: coerce_entry_def coerce_value_def self_log_def)

lemma coerce_entry_integer_value:
  "map_sum id fst (coerce_entry debug rt key (VStr ''integer'') v) =
     Inr (case v of VStr s \<Rightarrow> (case py_int s of Inr i \<Rightarrow> VInt i | Inl e \<Rightarrow> v) | _ \<Rightarrow> v)"
proof (cases v)
  case (VStr s)
  then show ?thesis
    by (simp add: coerce_entry_integer_str split: sum.splits)
qed (simp_all add: coerce_entry_def coerce_value_def)

lemma coerce_entry_number_value:
  "map_sum id fst (coerce_entry debug rt key (VStr ''number'') v) =
     Inr (case v of VStr s \<Rightarrow> (case py_float rt s of Some f \<Rightarrow> VFloat f | None \<Rightarrow> v) | _ \<Rightarrow> v)"
proof (cases v)
  case (VStr s)
  then show ?thesis
    by (simp add: coerce_entry_number_str split: option.splits)
qed (simp_all add: coerce_entry_def coerce_value_def)

lemma py_int_42: "py_int ''42'' = Inr 42"
  by (simp add: int_defs)

lemma py_int_abc: "py_int ''abc'' = Inl (ValueError ''invalid literal for int() with base 10'')"
  by (simp add: int_defs)

text \<open>
  C6, as the code has it: for a parameter of declared type \<^verbatim>\<open>integer\<close> or \<^verbatim>\<open>number\<close>, a
  string is parsed (\<^verbatim>\<open>int\<close> for \<^verbatim>\<open>integer\<close>, \<^verbatim>\<open>float\<close> for \<^verbatim>\<open>number\<close>) and the parsed number
  is stored; when the parse fails the original string is stored and the coercion still
  returns; a value that is not a string is stored unchanged. The failure message is
  logged when \<^verbatim>\<open>debug_filtering\<close> is set, and nothing is logged otherwise. With the
  property \<^verbatim>\<open>n\<close> of type \<^verbatim>\<open>integer\<close>, \<^verbatim>\<open>{"n": "42"}\<close> gives \<^verbatim>\<open>{"n": 42}\<close> and
  \<^verbatim>\<open>{"n": "abc"}\<close> gives \<^verbatim>\<open>{"n": "abc"}\<close>.
\<close>

theorem numeric_coercion:
  "coerce_entry debug rt key (VStr ''integer'') (VStr s) =
     (case py_int s of
        Inr i \<Rightarrow> Inr (VInt i, if debug then [ParameterCoerced key (VStr s) (VInt i)] else [])
      | Inl e \<Rightarrow> Inr (VStr s, if debug then [CoercionFailed key e] else []))
   \<and> coerce_entry debug rt key (VStr ''number'') (VStr s) =
     (case py_float rt s of
        Some f \<Rightarrow> Inr (VFloat f, if debug then [ParameterCoerced key (VStr s) (VFloat f)] else [])
      | None \<Rightarrow>
          Inr (VStr s,
               if debug then [CoercionFailed key (ValueError ''could not convert string to float'')]
               else []))
   \<and> map_sum id fst (coerce_entry debug rt key (VStr ''integer'') v) =
     Inr (case v of VStr s \<Rightarrow> (case py_int s of Inr i \<Rightarrow> VInt i | Inl e \<Rightarrow> v) | _ \<Rightarrow> v)
   \<and> map_sum id fst (coerce_entry debug rt key (VStr ''number'') v) =
     Inr (case v of VStr s \<Rightarrow> (case py_float rt s of Some f \<Rightarrow> VFloat f | None \<Rightarrow> v) | _ \<Rightarrow> v)
   \<and> coerce_parameters debug rt [(''n'', VStr ''42'')] (typed_schema ''n'' ''integer'') =
     Inr ([(''n'', VInt 42)],
          if debug then [ParameterCoerced ''n'' (VStr ''42'') (VInt 42)] else [])
   \<and> coerce_parameters debug rt [(''n'', VStr ''abc'')] (typed_schema ''n'' ''integer'') =
     Inr ([(''n'', VStr ''abc'')],
          if debug
          then [CoercionFailed ''n'' (ValueError ''invalid literal for int() with base 10'')]
          else [])"
proof -
  have a: "coerce_parameters debug rt [(''n'', VStr ''42'')] (typed_schema ''n'' ''integer'') =
     Inr ([(''n'', VInt 42)],
          if debug then [ParameterCoerced ''n'' (VStr ''42'') (VInt 42)] else [])"
    by (simp add: coerce_parameters_single coerce_entry_integer_str py_int_42)
  have b: "coerce_parameters debug rt [(''n'', VStr ''abc'')] (typed_schema ''n'' ''integer'') =
     Inr ([(''n'', VStr ''abc'')],
          if debug
          then [CoercionFailed ''n'' (ValueError ''invalid literal for int() with base 10'')]
          else [])"
    by (simp add: coerce_parameters_single coerce_entry_integer_str py_int_abc)
  show ?thesis
    using a b coerce_entry_integer_str [of debug rt key s] coerce_entry_number_str [of debug rt key s]
      coerce_entry_integer_value [of debug rt key v] coerce_entry_number_value [of debug rt key v]
    by (intro conjI)
qed

text \<open>With debug logging on, the parse of \<^verbatim>\<open>"42"\<close> and the failure on \<^verbatim>\<open>"abc"\<close> are both logged.\<close>

theorem numeric_coercion_witness:
  "coerce_parameters True plain_runtime [(''n'', VStr ''42'')] (typed_schema ''n'' ''integer'') =
     Inr ([(''n'', VInt 42)], [ParameterCoerced ''n'' (VStr ''42'') (VInt 42)])
   \<and> coerce_parameters True plain_runtime [(''n'', VStr ''abc'')] (typed_schema ''n'' ''integer'') =
     Inr ([(''n'', VStr ''abc'')],
          [CoercionFailed ''n'' (ValueError ''invalid literal for int() with base 10'')])
   \<and> map_sum id fst (coerce_entry True plain_runtime ''n'' (VStr ''number'') (VInt 7)) = Inr (VInt 7)"
  using numeric_coercion [of True plain_runtime "''n''" "''42''" "VInt 7"]
  by simp

text \<open>
  C6 as stated fails: with debug logging off, as the constructor leaves it by default,
  the parse failure on \<^verbatim>\<open>"abc"\<close> passes the string through and records no diagnostic.
\<close>

theorem numeric_coercion_counterexample:
  "coerce_parameters False plain_runtime [(''n'', VStr ''abc'')] (typed_schema ''n'' ''integer'') =
     Inr ([(''n'', VStr ''abc'')], [])"
  by (simp add: coerce_parameters_def coerce_entry_def coerce_value_def self_log_def
      typed_schema_def int_defs)

section \<open>Rule matching\<close>

text \<open>
  What \<^verbatim>\<open>_annotation_value_matches_filter\<close> computes: a callable rule gives the truth of
  its result and a raising callable gives no match; a rule that is not a list matches by
  \<^verbatim>\<open>==\<close>; a list rule matches a value that is not a list by membership; a list rule
  matches a list by a common element, provided every element of both lists can be hashed.
\<close>

lemma matches_callable:
  "annotation_value_matches_filter v (Callable f) =
     Inr (case f v of Inl e \<Rightarrow> False | Inr r \<Rightarrow> py_truthy r)"
  by (simp add: annotation_value_matches_filter_def py_try_def split: sum.splits)

lemma matches_scalar:
  "\<not> is_list r \<Longrightarrow> annotation_value_matches_filter v (Value r) = Inr (py_eq v r)"
  by (cases r) (simp_all add: annotation_value_matches_filter_def)

lemma matches_list_scalar:
  "\<not> is_list v \<Longrightarrow>
   annotation_value_matches_filter v (Value (VList rs)) = Inr (\<exists>b \<in> set rs. py_eq v b)"
  by (cases v) (simp_all add: annotation_value_matches_filter_def py_in_list_def list_ex_iff)

lemma matches_list_list:
  "list_all hashable vs \<Longrightarrow> list_all hashable rs \<Longrightarrow>
   annotation_value_matches_filter (VList vs) (Value (VList rs)) =
     Inr (\<exists>a \<in> set vs. \<exists>b \<in> set rs. py_eq a b)"
  by (auto simp: annotation_value_matches_filter_def py_set_def py_set_inter_def py_in_list_def
        list_ex_iff filter_empty_conv)

lemma matches_toolsets_examples:
  "annotation_value_matches_filter (VList [VStr ''b'', VStr ''c''])
     (Value (VList [VStr ''a'', VStr ''b''])) = Inr True"
  "annotation_value_matches_filter (VList [VStr ''c'', VStr ''d''])
     (Value (VList [VStr ''a'', VStr ''b''])) = Inr False"
  by (simp_all add: annotation_value_matches_filter_def py_set_def py_set_inter_def py_in_list_def)

lemma custom_filter_raises_rejects:
  "custom_filter self = Some f \<Longrightarrow> f t = Inl e \<Longrightarrow> should_include_tool self t = Inr False"
  by (simp add: should_include_tool_def)

text \<open>
  C3: the rule \<^verbatim>\<open>["a", "b"]\<close> and the annotation value \<^verbatim>\<open>[["x"], "b"]\<close> have the common
  element \<^verbatim>\<open>"b"\<close>, so the rule should match. The code builds \<^verbatim>\<open>set(annotation_value)\<close>,
  which raises \<^verbatim>\<open>TypeError\<close> on the element \<^verbatim>\<open>["x"]\<close>, and returns nothing.
\<close>

theorem list_rule_unhashable_raises:
  "annotation_value_matches_filter (VList [VList [VStr ''x''], VStr ''b''])
     (Value (VList [VStr ''a'', VStr ''b''])) = Inl (TypeError ''unhashable type'')"
  by (simp add: annotation_value_matches_filter_def py_set_def)

text \<open>
  C2: an instance constructed with \<^verbatim>\<open>annotation_filters={"toolsets": ["a"]}\<close> and a tool
  whose \<^verbatim>\<open>toolsets\<close> annotation is \<^verbatim>\<open>[["a"]]\<close>. The \<^verbatim>\<open>TypeError\<close> of the list rule is
  caught neither in \<^verbatim>\<open>_annotation_value_matches_filter\<close> nor in \<^verbatim>\<open>_should_include_tool\<close>:
  it leaves the inclusion decision and makes \<^verbatim>\<open>initialize\<close> raise.
\<close>

theorem should_include_tool_propagates:
  "should_include_tool (toolsets_instance (VList [VStr ''a'']) None)
     (tagged_tool ''t'' (VList [VList [VStr ''a'']])) = Inl (TypeError ''unhashable type'')
   \<and> fst (initialize (plain_agno []) plain_runtime
            (toolsets_instance (VList [VStr ''a''])
               (Some (scripted_session (Inr [tagged_tool ''t'' (VList [VList [VStr ''a'']])])))))
     = Inl (TypeError ''unhashable type'')"
  by (simp add: should_include_tool_def get_annotation_value_def get_annotation_value_body_def
        py_try_def annotation_value_matches_filter_def py_set_def initialize_def
        fetch_and_filter_def fixture_defs)

end
